theory Spec2Isabelle
  imports Main
begin

section \<open>Python values, exceptions and the datetime library\<close>

text \<open>
  The module \<^verbatim>\<open>timezones/fields.py\<close> is embedded function by function. Exceptions
  are values of the sum type \<open>exn + 'a\<close> (\<open>Inl\<close> is a raised exception). The
  collaborators the module calls but does not define (the datetime and pytz libraries, the
  database adapter, the base field classes, the default manager) are modelled by their
  documented behaviour or taken as parameters.
\<close>

datatype exn =
  AttributeError | NameError | ValueError | TypeError | IndexError
  | UnknownTimeZoneError | ConfigurationError | RuntimeError

text \<open>
  A tzinfo object of pytz, as attached to an aware datetime: the zone it belongs to and
  the entry of that zone's transition table it stands for, which is an offset from UTC (a
  timedelta, in microseconds), a daylight-saving part and an abbreviation. pytz keeps one
  tzinfo object per zone and entry, so two tzinfo objects are the same object exactly when
  they agree in all four.
\<close>

record pytz_tzinfo =
  zone :: string
  utcoffset :: int
  dst :: int
  tzname :: string

type_synonym transition_info = "int \<times> int \<times> string"

definition tzinfo_instance :: "string \<Rightarrow> transition_info \<Rightarrow> pytz_tzinfo" where
  "tzinfo_instance name entry =
     (case entry of (off, d, abbr) \<Rightarrow> \<lparr>zone = name, utcoffset = off, dst = d, tzname = abbr\<rparr>)"

text \<open>
  A datetime is its wall-clock reading, counted in microseconds from
  0001-01-01T00:00:00, and its \<^verbatim>\<open>tzinfo\<close> attribute (\<open>None\<close> for a naive datetime).
  The range limits of Python's datetime (years 1 to 9999) are not modelled.
\<close>

record datetime =
  wall :: int
  tzinfo :: "pytz_tzinfo option"

text \<open>
  A pytz timezone object: its name (\<^verbatim>\<open>str(tz)\<close>), the table entry it stands for
  itself when it is used as a tzinfo (the first entry of its table, local mean time for most
  zones), the entry \<^verbatim>\<open>fromutc\<close> selects at a UTC reading, and the entry
  \<^verbatim>\<open>localize\<close> (with its default \<^verbatim>\<open>is_dst=False\<close>) selects for a wall-clock
  reading. Both rules are arbitrary functions here.
\<close>

record timezone_obj =
  zone_name :: string
  own_info :: transition_info
  fromutc_info :: "int \<Rightarrow> transition_info"
  localize_info :: "int \<Rightarrow> transition_info"

text \<open>
  The timezone object seen as a tzinfo, and the offset \<^verbatim>\<open>localize\<close> gives a wall
  clock.
\<close>

definition zone_tzinfo :: "timezone_obj \<Rightarrow> pytz_tzinfo" where
  "zone_tzinfo tz = tzinfo_instance (zone_name tz) (own_info tz)"

definition localize_offset :: "timezone_obj \<Rightarrow> int \<Rightarrow> int" where
  "localize_offset tz w = fst (localize_info tz w)"

text \<open>
  The Python values that reach the module's dynamic type tests: \<^verbatim>\<open>None\<close>, a string,
  a pytz timezone, and any other object (given by its \<^verbatim>\<open>unicode()\<close> rendering).
\<close>

datatype pyval = PyNone | PyStr string | PyTz timezone_obj | PyObj string

text \<open>
  The pytz zone table: the known identifiers with their own entry and their two rules.
  \<^verbatim>\<open>pytz.all_timezones_set\<close> is the set of its keys, and \<^verbatim>\<open>pytz.timezone(name)\<close>
  returns the zone of that name or raises; any argument that is not a string raises too.
\<close>

type_synonym tzdb =
  "(string \<times> transition_info \<times> (int \<Rightarrow> transition_info) \<times> (int \<Rightarrow> transition_info)) list"

definition all_timezones_set :: "tzdb \<Rightarrow> string set" where
  "all_timezones_set db = fst ` set db"

definition pytz_timezone :: "tzdb \<Rightarrow> pyval \<Rightarrow> exn + timezone_obj" where
  "pytz_timezone db v =
     (case v of
        PyStr s \<Rightarrow>
          (case map_of db s of
             None \<Rightarrow> Inl UnknownTimeZoneError
           | Some (own, fu, lo) \<Rightarrow>
               Inr \<lparr>zone_name = s, own_info = own, fromutc_info = fu, localize_info = lo\<rparr>)
      | _ \<Rightarrow> Inl AttributeError)"

text \<open>
  \<^verbatim>\<open>tz.localize(dt)\<close>: attaches to a naive datetime the tzinfo of the zone that the
  rule selects for its wall clock, which is kept.
\<close>

definition localize :: "timezone_obj \<Rightarrow> datetime \<Rightarrow> exn + datetime" where
  "localize tz dt =
     (case tzinfo dt of
        Some _ \<Rightarrow> Inl ValueError
      | None \<Rightarrow>
          Inr (dt\<lparr>tzinfo :=
                 Some (tzinfo_instance (zone_name tz) (localize_info tz (wall dt)))\<rparr>))"

text \<open>
  \<^verbatim>\<open>dt.astimezone(tz)\<close>. An argument that is no tzinfo raises \<^verbatim>\<open>TypeError\<close>, a
  naive datetime raises \<^verbatim>\<open>ValueError\<close>. When \<^verbatim>\<open>dt.tzinfo is tz\<close> the datetime is
  returned as it is. Otherwise its UTC reading is taken with its own offset and handed to
  \<^verbatim>\<open>tz.fromutc\<close>, which gives the same point in time read in the zone \<open>tz\<close>.
\<close>

definition astimezone :: "datetime \<Rightarrow> pyval \<Rightarrow> exn + datetime" where
  "astimezone dt tz =
     (case tz of
        PyTz z \<Rightarrow>
          (case tzinfo dt of
             None \<Rightarrow> Inl ValueError
           | Some mytz \<Rightarrow>
               (if mytz = zone_tzinfo z then Inr dt
                else
                  (let utc = wall dt - utcoffset mytz; entry = fromutc_info z utc
                   in Inr \<lparr>wall = utc + fst entry,
                           tzinfo = Some (tzinfo_instance (zone_name z) entry)\<rparr>)))
      | _ \<Rightarrow> Inl TypeError)"

text \<open>\<^verbatim>\<open>value.replace(tzinfo=None)\<close>; on \<^verbatim>\<open>None\<close> the attribute lookup fails.\<close>

definition replace_tzinfo_None :: "datetime option \<Rightarrow> exn + datetime option" where
  "replace_tzinfo_None value =
     (case value of
        None \<Rightarrow> Inl AttributeError
      | Some v \<Rightarrow> Inr (Some (v\<lparr>tzinfo := None\<rparr>)))"

text \<open>The point in time an aware datetime denotes, in microseconds of UTC.\<close>

definition utc_instant :: "datetime \<Rightarrow> int option" where
  "utc_instant dt = (case tzinfo dt of None \<Rightarrow> None | Some ti \<Rightarrow> Some (wall dt - utcoffset ti))"

section \<open>The database connection\<close>

text \<open>
  \<^verbatim>\<open>getattr(obj, name)\<close> without a default raises when the attribute is missing;
  a present attribute is tested for truth.
\<close>

datatype 'a attr = Missing | Falsy | Truthy 'a

text \<open>
  \<^verbatim>\<open>connection.ops.value_to_db_datetime\<close> is the adapter's function; only whether it
  returns (\<open>None\<close>) or raises (\<open>Some e\<close>) matters to the caller.
\<close>

record db_ops =
  value_to_db_datetime :: "(datetime option \<Rightarrow> exn option) attr"

record connection =
  ops :: "db_ops attr"

text \<open>The calls made to the persistence layer, in order.\<close>

datatype adapter_call = ProbeCall "datetime option" | SaveCall "datetime option"

section \<open>LocalizedDateTimeField\<close>

text \<open>
  The conversion to \<^verbatim>\<open>default_tz\<close> that \<^verbatim>\<open>get_db_prep_save\<close> (lines 92 to 95) and
  \<^verbatim>\<open>get_db_prep_lookup\<close> (lines 112 to 115) share.
\<close>

definition to_default_tz :: "timezone_obj \<Rightarrow> datetime \<Rightarrow> exn + datetime" where
  "to_default_tz default_tz value =
     (if tzinfo value = None then localize default_tz value
      else astimezone value (PyTz default_tz))"

text \<open>Lines 98 to 103 of \<^verbatim>\<open>get_db_prep_save\<close>: the probe of the adapter.\<close>

definition probe_connection ::
  "connection option \<Rightarrow> datetime option \<Rightarrow> adapter_call list \<times> (exn + datetime option)" where
  "probe_connection conn value =
     (case conn of
        None \<Rightarrow> ([], Inr value)
      | Some c \<Rightarrow>
          (case ops c of
             Missing \<Rightarrow> ([], Inl AttributeError)
           | Falsy \<Rightarrow> ([], Inr value)
           | Truthy dbops \<Rightarrow>
               (case value_to_db_datetime dbops of
                  Missing \<Rightarrow> ([], Inl AttributeError)
                | Falsy \<Rightarrow> ([], Inr value)
                | Truthy f \<Rightarrow>
                    ([ProbeCall value],
                     (case f value of
                        None \<Rightarrow> Inr value
                      | Some e \<Rightarrow>
                          (if e = ValueError then replace_tzinfo_None value else Inl e))))))"

text \<open>
  \<^verbatim>\<open>get_db_prep_save\<close>. The base class's method is the parameter \<open>base\<close>. The result
  is the list of calls made to the persistence layer and the value returned or the exception
  raised.
\<close>

definition get_db_prep_save ::
  "timezone_obj \<Rightarrow> (datetime option \<Rightarrow> connection option \<Rightarrow> exn + 'db) \<Rightarrow>
   datetime option \<Rightarrow> connection option \<Rightarrow> adapter_call list \<times> (exn + 'db)" where
  "get_db_prep_save default_tz base value conn =
     (case (case value of
              None \<Rightarrow> Inr None
            | Some v \<Rightarrow>
                (case to_default_tz default_tz v of Inl e \<Rightarrow> Inl e | Inr v' \<Rightarrow> Inr (Some v'))) of
        Inl e \<Rightarrow> ([], Inl e)
      | Inr value1 \<Rightarrow>
          (case probe_connection conn value1 of
             (calls, Inl e) \<Rightarrow> (calls, Inl e)
           | (calls, Inr value2) \<Rightarrow> (calls @ [SaveCall value2], base value2 conn)))"

text \<open>\<^verbatim>\<open>get_db_prep_lookup\<close>: no test for \<^verbatim>\<open>None\<close> before \<^verbatim>\<open>value.tzinfo\<close>.\<close>

definition get_db_prep_lookup ::
  "timezone_obj \<Rightarrow> (string \<Rightarrow> datetime \<Rightarrow> connection option \<Rightarrow> bool option \<Rightarrow> exn + 'db) \<Rightarrow>
   string \<Rightarrow> datetime option \<Rightarrow> connection option \<Rightarrow> bool option \<Rightarrow> exn + 'db" where
  "get_db_prep_lookup default_tz base lookup_type value conn prepared =
     (case value of
        None \<Rightarrow> Inl AttributeError
      | Some v \<Rightarrow>
          (case to_default_tz default_tz v of
             Inl e \<Rightarrow> Inl e
           | Inr v' \<Rightarrow> base lookup_type v' conn prepared))"

text \<open>
  The \<^verbatim>\<open>timezone\<close> argument of the field: absent, a string, a pytz timezone, or a
  callable (given by what calling it does: raise, or return a value).
\<close>

datatype tz_arg = TzNone | TzStr string | TzZone timezone_obj | TzCallable "exn + pyval"

record localized_field =
  attname :: string
  timezone :: tz_arg

text \<open>\<^verbatim>\<open>LocalizedDateTimeField.__init__\<close>: a known zone name is resolved at once.\<close>

definition LocalizedDateTimeField_init :: "tzdb \<Rightarrow> string \<Rightarrow> tz_arg \<Rightarrow> exn + localized_field" where
  "LocalizedDateTimeField_init db name tz =
     (case tz of
        TzStr s \<Rightarrow>
          (if s \<in> all_timezones_set db
           then (case pytz_timezone db (PyStr s) of
                   Inl e \<Rightarrow> Inl e
                 | Inr z \<Rightarrow> Inr \<lparr>attname = name, timezone = TzZone z\<rparr>)
           else Inr \<lparr>attname = name, timezone = TzStr s\<rparr>)
      | _ \<Rightarrow> Inr \<lparr>attname = name, timezone = tz\<rparr>)"

section \<open>The localized attribute of a record\<close>

text \<open>A model instance: its primary key and its instance attributes.\<close>

record record_instance =
  pk_val :: int
  attrs :: "string \<Rightarrow> datetime option option"

definition dt_field_name :: "localized_field \<Rightarrow> string" where
  "dt_field_name field = ''_datetimezone_'' @ attname field"

text \<open>
  The names through which \<^verbatim>\<open>set_dtz_field\<close> can reach a model instance: its parameter
  \<^verbatim>\<open>instance\<close>. The enclosing functions bind \<^verbatim>\<open>field\<close>, \<^verbatim>\<open>dt_field_name\<close>,
  \<^verbatim>\<open>sender\<close> and \<^verbatim>\<open>kwargs\<close>, the module binds its imports, constants, classes
  and functions; none of them is called \<^verbatim>\<open>model_instance\<close>.
\<close>

definition set_dtz_field_scope :: "record_instance \<Rightarrow> (string \<times> record_instance) list" where
  "set_dtz_field_scope inst = [(''instance'', inst)]"

text \<open>
  Lines 139 to 170 of \<^verbatim>\<open>set_dtz_field\<close>: the zone the attribute is converted to.
  \<open>manager pk name\<close> is the query
  \<^verbatim>\<open>instance._default_manager.filter(pk=pk).values_list(name)\<close>, a list of rows.
\<close>

definition resolve_display_zone ::
  "timezone_obj \<Rightarrow> tzdb \<Rightarrow> (int \<Rightarrow> string \<Rightarrow> exn + pyval list list) \<Rightarrow>
   localized_field \<Rightarrow> record_instance \<Rightarrow> exn + pyval" where
  "resolve_display_zone default_tz db manager field inst =
     (case timezone field of
        TzStr rel \<Rightarrow>
          (case map_of (set_dtz_field_scope inst) ''model_instance'' of
             None \<Rightarrow> Inl NameError
           | Some m \<Rightarrow>
               (case manager (pk_val m) rel of
                  Inl e \<Rightarrow> Inl e
                | Inr [] \<Rightarrow> Inl IndexError
                | Inr ([] # _) \<Rightarrow> Inl IndexError
                | Inr ((tz_name # _) # _) \<Rightarrow>
                    (case (case pytz_timezone db tz_name of
                             Inl _ \<Rightarrow> PyTz default_tz
                           | Inr z \<Rightarrow> PyTz z) of
                       PyNone \<Rightarrow> Inr (PyTz default_tz)
                     | time_zone \<Rightarrow> Inr time_zone)))
      | TzCallable call \<Rightarrow>
          (case call of
             Inl e \<Rightarrow> Inl e
           | Inr tz_name \<Rightarrow>
               (case (case tz_name of
                        PyStr _ \<Rightarrow>
                          (case pytz_timezone db tz_name of
                             Inl _ \<Rightarrow> PyTz default_tz
                           | Inr z \<Rightarrow> PyTz z)
                      | _ \<Rightarrow> tz_name) of
                  PyNone \<Rightarrow> Inr (PyTz default_tz)
                | time_zone \<Rightarrow> Inr time_zone))
      | TzZone z \<Rightarrow> Inr (PyTz z)
      | TzNone \<Rightarrow> Inr PyNone)"

text \<open>\<^verbatim>\<open>set_dtz_field\<close>, the setter of the property; it returns the updated instance.\<close>

definition set_dtz_field ::
  "timezone_obj \<Rightarrow> tzdb \<Rightarrow> (int \<Rightarrow> string \<Rightarrow> exn + pyval list list) \<Rightarrow>
   localized_field \<Rightarrow> record_instance \<Rightarrow> datetime option \<Rightarrow> exn + record_instance" where
  "set_dtz_field default_tz db manager field inst dt =
     (case dt of
        None \<Rightarrow> Inr (inst\<lparr>attrs := (attrs inst)(dt_field_name field \<mapsto> None)\<rparr>)
      | Some d \<Rightarrow>
          (case (if tzinfo d = None then localize default_tz d else Inr d) of
             Inl e \<Rightarrow> Inl e
           | Inr d' \<Rightarrow>
               (case resolve_display_zone default_tz db manager field inst of
                  Inl e \<Rightarrow> Inl e
                | Inr time_zone \<Rightarrow>
                    (case astimezone d' time_zone of
                       Inl e \<Rightarrow> Inl e
                     | Inr r \<Rightarrow>
                         Inr (inst\<lparr>attrs := (attrs inst)(dt_field_name field \<mapsto> Some r)\<rparr>)))))"

text \<open>\<^verbatim>\<open>get_dtz_field\<close>, the getter of the property.\<close>

definition get_dtz_field :: "localized_field \<Rightarrow> record_instance \<Rightarrow> exn + datetime option" where
  "get_dtz_field field inst =
     (case attrs inst (dt_field_name field) of
        None \<Rightarrow> Inl AttributeError
      | Some v \<Rightarrow> Inr v)"

text \<open>
  Reading a record: the framework assigns the stored value to the attribute, which runs
  the setter, and a later access runs the getter.
\<close>

definition on_read ::
  "timezone_obj \<Rightarrow> tzdb \<Rightarrow> (int \<Rightarrow> string \<Rightarrow> exn + pyval list list) \<Rightarrow>
   localized_field \<Rightarrow> record_instance \<Rightarrow> datetime option \<Rightarrow> exn + datetime option" where
  "on_read default_tz db manager field inst stored =
     (case set_dtz_field default_tz db manager field inst stored of
        Inl e \<Rightarrow> Inl e
      | Inr inst' \<Rightarrow> get_dtz_field field inst')"

section \<open>TimeZoneField\<close>

text \<open>
  Modelled from the spec: \<^verbatim>\<open>validate_timezone_max_length\<close> of
  \<^verbatim>\<open>timezones/utils.py\<close>, which is not among the sources. It checks that
  \<open>max_length\<close> is no smaller than the length of the longest of the known identifiers
  and fails with a configuration error otherwise; with no identifier there is nothing to
  check.
\<close>

definition validate_timezone_max_length :: "int \<Rightarrow> string list \<Rightarrow> exn + unit" where
  "validate_timezone_max_length max_length zones =
     (if zones = [] then Inr ()
      else if max_length < int (foldr max (map length zones) 0) then Inl ConfigurationError
      else Inr ())"

text \<open>The keyword arguments handed on to the base field's constructor.\<close>

datatype kwval = KInt int | KStr string | KBool bool | KChoices "(string \<times> string) list"

text \<open>
  \<^verbatim>\<open>TimeZoneField.__init__\<close>: the length check comes first, then the defaults are
  overridden by the caller's keyword arguments (\<^verbatim>\<open>defaults.update(kwargs)\<close>) and
  handed to the base constructor, whose result is taken to be the options it receives.
\<close>

definition TimeZoneField_init ::
  "int \<Rightarrow> string list \<Rightarrow> string \<Rightarrow> (string \<times> string) list \<Rightarrow> (string \<rightharpoonup> kwval) \<Rightarrow>
   exn + (string \<rightharpoonup> kwval)" where
  "TimeZoneField_init MAX_TIMEZONE_LENGTH ALL_TIMEZONE_CHOICES TIME_ZONE PRETTY_TIMEZONE_CHOICES kwargs =
     (case validate_timezone_max_length MAX_TIMEZONE_LENGTH ALL_TIMEZONE_CHOICES of
        Inl e \<Rightarrow> Inl e
      | Inr _ \<Rightarrow>
          Inr ([''max_length'' \<mapsto> KInt MAX_TIMEZONE_LENGTH,
                ''default'' \<mapsto> KStr TIME_ZONE,
                ''choices'' \<mapsto> KChoices PRETTY_TIMEZONE_CHOICES] ++ kwargs))"

text \<open>
  The base \<^verbatim>\<open>CharField.to_python\<close>: a string or \<^verbatim>\<open>None\<close> is returned as it is,
  anything else as its unicode rendering, which for a pytz timezone is its name.
\<close>

definition CharField_to_python :: "pyval \<Rightarrow> pyval" where
  "CharField_to_python value =
     (case value of
        PyNone \<Rightarrow> PyNone
      | PyStr s \<Rightarrow> PyStr s
      | PyTz z \<Rightarrow> PyStr (zone_name z)
      | PyObj r \<Rightarrow> PyStr r)"

text \<open>
  Modelled from the spec: \<^verbatim>\<open>coerce_timezone_value\<close> of \<^verbatim>\<open>timezones/utils.py\<close>,
  which is not among the sources. A string found among the known identifiers becomes the
  resolved zone; a string not found is returned unchanged and unresolved; a value that is
  already coerced is returned as it is. The coercion never raises.
\<close>

definition coerce_timezone_value :: "tzdb \<Rightarrow> pyval \<Rightarrow> pyval" where
  "coerce_timezone_value db value =
     (case value of
        PyStr s \<Rightarrow> (case pytz_timezone db (PyStr s) of Inl _ \<Rightarrow> PyStr s | Inr z \<Rightarrow> PyTz z)
      | _ \<Rightarrow> value)"

text \<open>\<^verbatim>\<open>TimeZoneField.to_python\<close>.\<close>

definition TimeZoneField_to_python :: "tzdb \<Rightarrow> pyval \<Rightarrow> pyval" where
  "TimeZoneField_to_python db value =
     (case CharField_to_python value of
        PyNone \<Rightarrow> PyNone
      | value' \<Rightarrow> coerce_timezone_value db value')"

section \<open>Calendar readings and sample collaborators\<close>

text \<open>
  The day count of Python's datetime module (\<^verbatim>\<open>_ymd2ord\<close>), used to write wall-clock
  readings as calendar dates.
\<close>

definition is_leap :: "int \<Rightarrow> bool" where
  "is_leap year = (year mod 4 = 0 \<and> (year mod 100 \<noteq> 0 \<or> year mod 400 = 0))"

definition days_before_year :: "int \<Rightarrow> int" where
  "days_before_year year =
     (let y = year - 1 in y * 365 + y div 4 - y div 100 + y div 400)"

definition days_before_month :: "int \<Rightarrow> nat \<Rightarrow> int" where
  "days_before_month year month =
     [0, 31, 59, 90, 120, 151, 181, 212, 243, 273, 304, 334] ! (month - 1)
     + (if month > 2 \<and> is_leap year then 1 else 0)"

definition ymd2ord :: "int \<Rightarrow> nat \<Rightarrow> nat \<Rightarrow> int" where
  "ymd2ord year month day = days_before_year year + days_before_month year month + int day"

text \<open>
  The wall-clock reading of \<^verbatim>\<open>datetime(year, month, day, hour, minute, second)\<close>, in
  microseconds from 0001-01-01T00:00:00, and a timedelta of whole hours.
\<close>

definition wall_clock :: "int \<Rightarrow> nat \<Rightarrow> nat \<Rightarrow> int \<Rightarrow> int \<Rightarrow> int \<Rightarrow> int" where
  "wall_clock year month day hour minute second =
     ((((ymd2ord year month day - 1) * 24 + hour) * 60 + minute) * 60 + second) * 1000000"

definition hours :: "int \<Rightarrow> int" where
  "hours h = h * 3600000000"

text \<open>
  An excerpt of the zone table. The rules of America/New_York are those in force from
  November 2020 to March 2022: daylight time from 2021-03-14T07:00 UTC to
  2021-11-07T06:00 UTC; \<^verbatim>\<open>localize\<close> reads a wall clock in the skipped or in the
  repeated hour as standard time. The zone object itself stands for local mean time, 4 hours
  and 56 minutes behind UTC.
\<close>

definition EST :: transition_info where
  "EST = (hours (- 5), 0, ''EST'')"

definition EDT :: transition_info where
  "EDT = (hours (- 4), hours 1, ''EDT'')"

definition new_york_fromutc :: "int \<Rightarrow> transition_info" where
  "new_york_fromutc u =
     (if wall_clock 2021 3 14 7 0 0 \<le> u \<and> u < wall_clock 2021 11 7 6 0 0 then EDT else EST)"

definition new_york_localize :: "int \<Rightarrow> transition_info" where
  "new_york_localize w =
     (if wall_clock 2021 3 14 3 0 0 \<le> w \<and> w < wall_clock 2021 11 7 1 0 0 then EDT else EST)"

definition sample_tzdb :: tzdb where
  "sample_tzdb =
     [(''UTC'', ((0, 0, ''UTC''), (\<lambda>_. (0, 0, ''UTC'')), (\<lambda>_. (0, 0, ''UTC'')))),
      (''America/New_York'',
         ((- 17760000000, 0, ''LMT''), new_york_fromutc, new_york_localize)),
      (''Asia/Tokyo'',
         ((33540000000, 0, ''LMT''), (\<lambda>_. (hours 9, 0, ''JST'')), (\<lambda>_. (hours 9, 0, ''JST''))))]"

definition utc_zone :: timezone_obj where
  "utc_zone =
     \<lparr>zone_name = ''UTC'', own_info = (0, 0, ''UTC''),
      fromutc_info = (\<lambda>_. (0, 0, ''UTC'')), localize_info = (\<lambda>_. (0, 0, ''UTC''))\<rparr>"

definition new_york_zone :: timezone_obj where
  "new_york_zone =
     \<lparr>zone_name = ''America/New_York'', own_info = (- 17760000000, 0, ''LMT''),
      fromutc_info = new_york_fromutc, localize_info = new_york_localize\<rparr>"

text \<open>
  The module constant \<^verbatim>\<open>default_tz\<close>: the zone named by the setting \<^verbatim>\<open>TIME_ZONE\<close>,
  or UTC when the setting is absent.
\<close>

definition module_default_tz :: "tzdb \<Rightarrow> string option \<Rightarrow> exn + timezone_obj" where
  "module_default_tz db TIME_ZONE =
     pytz_timezone db (PyStr (case TIME_ZONE of None \<Rightarrow> ''UTC'' | Some s \<Rightarrow> s))"

text \<open>
  Two adapters: one whose \<^verbatim>\<open>value_to_db_datetime\<close> accepts every value, and one
  that raises \<^verbatim>\<open>ValueError\<close> on an aware datetime, as a backend without zone support
  does. The sample base method stores the value it is given.
\<close>

definition aware_connection :: connection where
  "aware_connection = \<lparr>ops = Truthy \<lparr>value_to_db_datetime = Truthy (\<lambda>_. None)\<rparr>\<rparr>"

definition naive_only_probe :: "datetime option \<Rightarrow> exn option" where
  "naive_only_probe value =
     (case value of
        None \<Rightarrow> None
      | Some v \<Rightarrow> (case tzinfo v of None \<Rightarrow> None | Some _ \<Rightarrow> Some ValueError))"

definition naive_only_connection :: connection where
  "naive_only_connection = \<lparr>ops = Truthy \<lparr>value_to_db_datetime = Truthy naive_only_probe\<rparr>\<rparr>"

definition store_as_given :: "datetime option \<Rightarrow> connection option \<Rightarrow> exn + datetime option" where
  "store_as_given value conn = Inr value"

definition no_rows :: "int \<Rightarrow> string \<Rightarrow> exn + pyval list list" where
  "no_rows pk name = Inr []"

definition sample_instance :: record_instance where
  "sample_instance = \<lparr>pk_val = 1, attrs = (\<lambda>_. None)\<rparr>"

text \<open>
  The point in time a datetime stands for: an aware one by its own offset, a naive one as
  a wall-clock reading of the default zone.
\<close>

definition denoted_instant :: "timezone_obj \<Rightarrow> datetime \<Rightarrow> int" where
  "denoted_instant default_tz t =
     (case tzinfo t of
        Some ti \<Rightarrow> wall t - utcoffset ti
      | None \<Rightarrow> wall t - localize_offset default_tz (wall t))"


section \<open>Auxiliary facts\<close>

lemmas calendar_defs =
  wall_clock_def ymd2ord_def days_before_year_def days_before_month_def is_leap_def hours_def

text \<open>The parts of a tzinfo made from a table entry.\<close>

lemma tzinfo_instance_simps:
  "zone (tzinfo_instance name entry) = name"
  "utcoffset (tzinfo_instance name entry) = fst entry"
  by (simp_all add: tzinfo_instance_def split: prod.splits)

text \<open>
  Converting an aware datetime keeps the point in time and gives a tzinfo of the target
  zone.
\<close>

lemma astimezone_aware:
  assumes "tzinfo d = Some ti"
  shows "\<exists>r tr. astimezone d (PyTz Z) = Inr r \<and> tzinfo r = Some tr \<and> zone tr = zone_name Z
           \<and> wall r - utcoffset tr = wall d - utcoffset ti"
proof (cases "ti = zone_tzinfo Z")
  case True
  with assms show ?thesis
    by (simp add: astimezone_def zone_tzinfo_def tzinfo_instance_simps)
next
  case False
  with assms show ?thesis
    by (simp add: astimezone_def Let_def tzinfo_instance_simps)
qed

text \<open>The conversion to the default zone never raises and keeps the point in time.\<close>

lemma to_default_tz_total:
  "\<exists>a ti. to_default_tz default_tz t = Inr a \<and> tzinfo a = Some ti
     \<and> zone ti = zone_name default_tz
     \<and> wall a - utcoffset ti = denoted_instant default_tz t
     \<and> (tzinfo t = None \<longrightarrow>
          wall a = wall t
          \<and> ti = tzinfo_instance (zone_name default_tz) (localize_info default_tz (wall t)))
     \<and> (tzinfo t = Some (zone_tzinfo default_tz) \<longrightarrow> a = t)
     \<and> (tzinfo t \<noteq> None \<and> tzinfo t \<noteq> Some (zone_tzinfo default_tz) \<longrightarrow>
          ti = tzinfo_instance (zone_name default_tz)
                 (fromutc_info default_tz (denoted_instant default_tz t)))"
proof (cases "tzinfo t")
  case None
  then show ?thesis
    by (simp add: to_default_tz_def localize_def denoted_instant_def localize_offset_def
        tzinfo_instance_simps)
next
  case (Some mytz)
  show ?thesis
  proof (cases "mytz = zone_tzinfo default_tz")
    case True
    with Some show ?thesis
      by (simp add: to_default_tz_def astimezone_def denoted_instant_def zone_tzinfo_def
          tzinfo_instance_simps)
  next
    case False
    with Some show ?thesis
      by (simp add: to_default_tz_def astimezone_def Let_def denoted_instant_def
          tzinfo_instance_simps)
  qed
qed





text \<open>
  A datetime built with the default timezone object itself as its tzinfo is not converted:
  10:00:00 tagged America/New_York at local mean time is probed as it is and, through an
  adapter without zone support, stored as the naive 10:00:00.
\<close>

lemma sample_same_tzinfo_save:
  "get_db_prep_save new_york_zone store_as_given
      (Some \<lparr>wall = wall_clock 2021 3 15 10 0 0, tzinfo = Some (zone_tzinfo new_york_zone)\<rparr>)
      (Some naive_only_connection) =
     ([ProbeCall (Some \<lparr>wall = wall_clock 2021 3 15 10 0 0,
                        tzinfo = Some (zone_tzinfo new_york_zone)\<rparr>),
       SaveCall (Some \<lparr>wall = wall_clock 2021 3 15 10 0 0, tzinfo = None\<rparr>)],
      Inr (Some \<lparr>wall = wall_clock 2021 3 15 10 0 0, tzinfo = None\<rparr>))"
  by (simp add: get_db_prep_save_def to_default_tz_def astimezone_def
      probe_connection_def naive_only_connection_def naive_only_probe_def replace_tzinfo_None_def
      store_as_given_def)

text \<open>The length of the longest identifier, as a fold and as a maximum.\<close>

lemma foldr_max_length:
  "m < int (foldr max (map length zs) 0) \<longleftrightarrow> (\<exists>s \<in> set zs. m < int (length s)) \<or> m < 0"
  by (induction zs) auto

lemma longest_length:
  assumes "zs \<noteq> []"
  shows "m < int (Max (length ` set zs)) \<longleftrightarrow> (\<exists>s \<in> set zs. m < int (length s))"
proof
  assume "m < int (Max (length ` set zs))"
  moreover have "Max (length ` set zs) \<in> length ` set zs"
    using assms by (intro Max_in) auto
  ultimately show "\<exists>s \<in> set zs. m < int (length s)" by auto
next
  assume "\<exists>s \<in> set zs. m < int (length s)"
  then obtain s where s: "s \<in> set zs" "m < int (length s)" by blast
  then have "length s \<le> Max (length ` set zs)" by (intro Max_ge) auto
  with s show "m < int (Max (length ` set zs))" by linarith
qed

lemma validate_fails_iff:
  "validate_timezone_max_length max_length zones = Inl ConfigurationError
      \<longleftrightarrow> (\<exists>s \<in> set zones. max_length < int (length s))"
proof (cases "zones = []")
  case True
  then show ?thesis by (simp add: validate_timezone_max_length_def)
next
  case False
  then obtain z where "z \<in> set zones" by (cases zones) auto
  then have "max_length < 0 \<Longrightarrow> \<exists>s \<in> set zones. max_length < int (length s)"
    by (intro bexI [of _ z]) auto
  with False show ?thesis
    by (auto simp: validate_timezone_max_length_def foldr_max_length)
qed

lemma validate_fails_longest:
  "validate_timezone_max_length max_length zones = Inl ConfigurationError
      \<longleftrightarrow> zones \<noteq> [] \<and> max_length < int (Max (length ` set zones))"
  using longest_length [of zones max_length] validate_fails_iff [of max_length zones]
  by (cases "zones = []") auto

section \<open>Saving: the value handed to the persistence layer\<close>



text \<open>
  Claim C4. When the adapter's \<^verbatim>\<open>value_to_db_datetime\<close> raises \<^verbatim>\<open>ValueError\<close> on the
  aware instant \<open>a\<close> that the conversion to the default zone produced, the adapter is
  called exactly twice: the probe with \<open>a\<close>, then the base save, once, with \<open>a\<close> without
  its zone (the same wall clock, a reading of the default zone). The result is whatever that
  one save returns, so a failure reaches the caller only when the naive value fails too.
\<close>

theorem probe_rejection_degrades_once:
  assumes "ops c = Truthy dbops" and "value_to_db_datetime dbops = Truthy probe"
    and "to_default_tz default_tz t = Inr a" and "probe (Some a) = Some ValueError"
  shows "get_db_prep_save default_tz base (Some t) (Some c) =
           ([ProbeCall (Some a), SaveCall (Some (a\<lparr>tzinfo := None\<rparr>))],
            base (Some (a\<lparr>tzinfo := None\<rparr>)) (Some c))
         \<and> (\<exists>ti. tzinfo a = Some ti \<and> zone ti = zone_name default_tz)
         \<and> wall (a\<lparr>tzinfo := None\<rparr>) = wall a"
proof -
  from assms have "get_db_prep_save default_tz base (Some t) (Some c) =
           ([ProbeCall (Some a), SaveCall (Some (a\<lparr>tzinfo := None\<rparr>))],
            base (Some (a\<lparr>tzinfo := None\<rparr>)) (Some c))"
    by (simp add: get_db_prep_save_def probe_connection_def replace_tzinfo_None_def)
  moreover from to_default_tz_total [of default_tz t] assms(3)
  have "\<exists>ti. tzinfo a = Some ti \<and> zone ti = zone_name default_tz" by auto
  ultimately show ?thesis by simp
qed

theorem probe_rejection_degrades_once_witness:
  "get_db_prep_save utc_zone store_as_given
      (Some \<lparr>wall = wall_clock 2021 3 15 6 0 0,
             tzinfo = Some
               \<lparr>zone = ''America/New_York'', utcoffset = hours (- 4), dst = hours 1, tzname = ''EDT''\<rparr>\<rparr>)
      (Some naive_only_connection) =
     ([ProbeCall (Some \<lparr>wall = wall_clock 2021 3 15 10 0 0,
                        tzinfo = Some
                          \<lparr>zone = ''UTC'', utcoffset = 0, dst = 0, tzname = ''UTC''\<rparr>\<rparr>),
       SaveCall (Some \<lparr>wall = wall_clock 2021 3 15 10 0 0, tzinfo = None\<rparr>)],
      store_as_given (Some \<lparr>wall = wall_clock 2021 3 15 10 0 0, tzinfo = None\<rparr>)
        (Some naive_only_connection))"
proof -
  have h1: "ops naive_only_connection = Truthy \<lparr>value_to_db_datetime = Truthy naive_only_probe\<rparr>"
    by (simp add: naive_only_connection_def)
  have h2: "value_to_db_datetime \<lparr>value_to_db_datetime = Truthy naive_only_probe\<rparr>
              = Truthy naive_only_probe"
    by simp
  have h3: "to_default_tz utc_zone
              \<lparr>wall = wall_clock 2021 3 15 6 0 0,
               tzinfo = Some
                 \<lparr>zone = ''America/New_York'', utcoffset = hours (- 4), dst = hours 1, tzname = ''EDT''\<rparr>\<rparr>
            = Inr \<lparr>wall = wall_clock 2021 3 15 10 0 0,
                   tzinfo = Some
                     \<lparr>zone = ''UTC'', utcoffset = 0, dst = 0, tzname = ''UTC''\<rparr>\<rparr>"
    by (simp add: to_default_tz_def astimezone_def utc_zone_def zone_tzinfo_def
        tzinfo_instance_def calendar_defs)
  have h4: "naive_only_probe (Some \<lparr>wall = wall_clock 2021 3 15 10 0 0,
                   tzinfo = Some
                     \<lparr>zone = ''UTC'', utcoffset = 0, dst = 0, tzname = ''UTC''\<rparr>\<rparr>) = Some ValueError"
    by (simp add: naive_only_probe_def)
  from probe_rejection_degrades_once [OF h1 h2 h3 h4, of store_as_given] show ?thesis by simp
qed

text \<open>
  Claim C10. For the input \<^verbatim>\<open>None\<close>, \<^verbatim>\<open>get_db_prep_save\<close> localizes, converts and
  strips nothing and hands \<^verbatim>\<open>None\<close> to the base save, whose result it returns: without a
  connection; with a connection whose \<^verbatim>\<open>ops\<close> or whose \<^verbatim>\<open>value_to_db_datetime\<close> is
  false; and with a connection whose \<^verbatim>\<open>value_to_db_datetime\<close> returns on \<^verbatim>\<open>None\<close> (the
  probe then sees \<^verbatim>\<open>None\<close> first). With any connection the adapter only ever sees
  \<^verbatim>\<open>None\<close>, and the only other outcome is that the lookup of the probe or the probe
  itself has raised before the base save was reached.
\<close>

theorem get_db_prep_save_None_unchanged:
  "get_db_prep_save default_tz base None None = ([SaveCall None], base None None)
   \<and> (ops c = Falsy \<or> (\<exists>dbops. ops c = Truthy dbops \<and> value_to_db_datetime dbops = Falsy) \<longrightarrow>
        get_db_prep_save default_tz base None (Some c) =
          ([SaveCall None], base None (Some c)))
   \<and> (\<forall>dbops probe.
         ops c = Truthy dbops \<and> value_to_db_datetime dbops = Truthy probe \<and> probe None = None \<longrightarrow>
         get_db_prep_save default_tz base None (Some c) =
           ([ProbeCall None, SaveCall None], base None (Some c)))
   \<and> (\<forall>call \<in> set (fst (get_db_prep_save default_tz base None conn)).
         call = ProbeCall None \<or> call = SaveCall None)
   \<and> (get_db_prep_save default_tz base None conn = ([SaveCall None], base None conn)
      \<or> get_db_prep_save default_tz base None conn =
          ([ProbeCall None, SaveCall None], base None conn)
      \<or> (\<exists>e. conn \<noteq> None
            \<and> (get_db_prep_save default_tz base None conn = ([], Inl e)
               \<or> get_db_prep_save default_tz base None conn = ([ProbeCall None], Inl e))))"
proof -
  have a: "get_db_prep_save default_tz base None None = ([SaveCall None], base None None)"
    by (simp add: get_db_prep_save_def probe_connection_def)
  have b: "ops c = Falsy \<or> (\<exists>dbops. ops c = Truthy dbops \<and> value_to_db_datetime dbops = Falsy) \<longrightarrow>
        get_db_prep_save default_tz base None (Some c) =
          ([SaveCall None], base None (Some c))"
    by (auto simp: get_db_prep_save_def probe_connection_def)
  have c: "\<forall>dbops probe.
         ops c = Truthy dbops \<and> value_to_db_datetime dbops = Truthy probe \<and> probe None = None \<longrightarrow>
         get_db_prep_save default_tz base None (Some c) =
           ([ProbeCall None, SaveCall None], base None (Some c))"
    by (simp add: get_db_prep_save_def probe_connection_def)
  have d: "\<forall>call \<in> set (fst (get_db_prep_save default_tz base None conn)).
         call = ProbeCall None \<or> call = SaveCall None"
    by (auto simp: get_db_prep_save_def probe_connection_def replace_tzinfo_None_def
        split: option.splits attr.splits)
  have e: "get_db_prep_save default_tz base None conn = ([SaveCall None], base None conn)
      \<or> get_db_prep_save default_tz base None conn =
          ([ProbeCall None, SaveCall None], base None conn)
      \<or> (\<exists>e. conn \<noteq> None
            \<and> (get_db_prep_save default_tz base None conn = ([], Inl e)
               \<or> get_db_prep_save default_tz base None conn = ([ProbeCall None], Inl e)))"
    by (auto simp: get_db_prep_save_def probe_connection_def replace_tzinfo_None_def
        split: option.splits attr.splits)
  from a b c d e show ?thesis by blast
qed

text \<open>
  The theorem at the two sample adapters, both of which return on \<^verbatim>\<open>None\<close>: the probe
  and the base save are called with \<^verbatim>\<open>None\<close>, and \<^verbatim>\<open>None\<close> is stored.
\<close>

theorem get_db_prep_save_None_unchanged_witness:
  "get_db_prep_save utc_zone store_as_given None (Some aware_connection) =
     ([ProbeCall None, SaveCall None], Inr None)
   \<and> get_db_prep_save new_york_zone store_as_given None (Some naive_only_connection) =
     ([ProbeCall None, SaveCall None], Inr None)"
proof -
  have h1: "ops aware_connection = Truthy \<lparr>value_to_db_datetime = Truthy (\<lambda>_. None)\<rparr>
      \<and> value_to_db_datetime \<lparr>value_to_db_datetime = Truthy (\<lambda>_. None)\<rparr> = Truthy (\<lambda>_. None)
      \<and> (\<lambda>_. None) (None :: datetime option) = (None :: exn option)"
    by (simp add: aware_connection_def)
  have h2: "ops naive_only_connection = Truthy \<lparr>value_to_db_datetime = Truthy naive_only_probe\<rparr>
      \<and> value_to_db_datetime \<lparr>value_to_db_datetime = Truthy naive_only_probe\<rparr>
          = Truthy naive_only_probe
      \<and> naive_only_probe None = None"
    by (simp add: naive_only_connection_def naive_only_probe_def)
  from get_db_prep_save_None_unchanged [of utc_zone store_as_given aware_connection] h1
  have a: "get_db_prep_save utc_zone store_as_given None (Some aware_connection) =
     ([ProbeCall None, SaveCall None], store_as_given None (Some aware_connection))"
    by blast
  from get_db_prep_save_None_unchanged [of new_york_zone store_as_given naive_only_connection] h2
  have b: "get_db_prep_save new_york_zone store_as_given None (Some naive_only_connection) =
     ([ProbeCall None, SaveCall None], store_as_given None (Some naive_only_connection))"
    by blast
  from a b show ?thesis by (simp add: store_as_given_def)
qed

section \<open>Lookups\<close>

text \<open>
  Claim C9. \<^verbatim>\<open>get_db_prep_lookup\<close> fails on \<^verbatim>\<open>None\<close>: reading \<^verbatim>\<open>value.tzinfo\<close>
  raises \<^verbatim>\<open>AttributeError\<close>, whatever the other arguments are, whereas
  \<^verbatim>\<open>get_db_prep_save\<close> accepts \<^verbatim>\<open>None\<close> and hands it to the base save. On a datetime the
  lookup converts to the default zone and calls the base method.
\<close>

theorem get_db_prep_lookup_None_fails:
  "get_db_prep_lookup default_tz base lookup_type None conn prepared = Inl AttributeError
   \<and> get_db_prep_save default_tz base' None None = ([SaveCall None], base' None None)
   \<and> (\<exists>a. to_default_tz default_tz t = Inr a
         \<and> get_db_prep_lookup default_tz base lookup_type (Some t) conn prepared
             = base lookup_type a conn prepared)"
  by (auto simp: get_db_prep_lookup_def get_db_prep_save_def probe_connection_def
      to_default_tz_def localize_def astimezone_def Let_def split: option.splits)

section \<open>Reading: the zone of the localized attribute\<close>

text \<open>
  Claim C2, as amended. For a field whose zone is a callable: when the callable returns
  \<^verbatim>\<open>None\<close> or a string that is no known identifier, the zone resolved in
  \<^verbatim>\<open>set_dtz_field\<close> is the default zone and the setter succeeds, storing for a datetime
  \<open>d\<close> the same point in time read in the default zone. When the callable itself raises,
  its exception leaves \<^verbatim>\<open>set_dtz_field\<close>: the call stands outside the \<^verbatim>\<open>try\<close>.
\<close>

theorem dynamic_zone_fallback:
  assumes "timezone field = TzCallable call"
  shows "(call = Inr PyNone \<or> (\<exists>s. call = Inr (PyStr s) \<and> s \<notin> all_timezones_set db) \<longrightarrow>
            resolve_display_zone default_tz db manager field inst = Inr (PyTz default_tz)
            \<and> set_dtz_field default_tz db manager field inst None =
                Inr (inst\<lparr>attrs := (attrs inst)(dt_field_name field \<mapsto> None)\<rparr>)
            \<and> (\<exists>r ti. set_dtz_field default_tz db manager field inst (Some d) =
                  Inr (inst\<lparr>attrs := (attrs inst)(dt_field_name field \<mapsto> Some r)\<rparr>)
                \<and> tzinfo r = Some ti \<and> zone ti = zone_name default_tz
                \<and> utc_instant r = Some (denoted_instant default_tz d)))
       \<and> (\<forall>e. call = Inl e \<longrightarrow>
              resolve_display_zone default_tz db manager field inst = Inl e
              \<and> set_dtz_field default_tz db manager field inst (Some d) = Inl e)"
proof -
  have r: "resolve_display_zone default_tz db manager field inst = Inr (PyTz default_tz)"
    if "call = Inr PyNone \<or> (\<exists>s. call = Inr (PyStr s) \<and> s \<notin> all_timezones_set db)"
    using that assms
    by (auto simp: resolve_display_zone_def pytz_timezone_def all_timezones_set_def
        map_of_eq_None_iff [THEN iffD2])
  have s: "\<exists>r ti. set_dtz_field default_tz db manager field inst (Some d) =
                  Inr (inst\<lparr>attrs := (attrs inst)(dt_field_name field \<mapsto> Some r)\<rparr>)
                \<and> tzinfo r = Some ti \<and> zone ti = zone_name default_tz
                \<and> utc_instant r = Some (denoted_instant default_tz d)"
    if "resolve_display_zone default_tz db manager field inst = Inr (PyTz default_tz)"
  proof -
    have "\<exists>d' ti'. (if tzinfo d = None then localize default_tz d else Inr d) = Inr d'
            \<and> tzinfo d' = Some ti'
            \<and> wall d' - utcoffset ti' = denoted_instant default_tz d"
      by (cases "tzinfo d")
        (auto simp: localize_def denoted_instant_def localize_offset_def tzinfo_instance_simps)
    then obtain d' ti' where
      d': "(if tzinfo d = None then localize default_tz d else Inr d) = Inr d'"
          "tzinfo d' = Some ti'"
          "wall d' - utcoffset ti' = denoted_instant default_tz d"
      by blast
    from astimezone_aware [OF d'(2), of default_tz] obtain r tr where
      r: "astimezone d' (PyTz default_tz) = Inr r" "tzinfo r = Some tr"
         "zone tr = zone_name default_tz" "wall r - utcoffset tr = wall d' - utcoffset ti'"
      by blast
    from d'(1) r(1) that have "set_dtz_field default_tz db manager field inst (Some d) =
        Inr (inst\<lparr>attrs := (attrs inst)(dt_field_name field \<mapsto> Some r)\<rparr>)"
      by (simp add: set_dtz_field_def)
    with r d'(3) show ?thesis
      by (intro exI [of _ r] exI [of _ tr]) (simp add: utc_instant_def)
  qed
  have n: "set_dtz_field default_tz db manager field inst None =
             Inr (inst\<lparr>attrs := (attrs inst)(dt_field_name field \<mapsto> None)\<rparr>)"
    by (simp add: set_dtz_field_def)
  have e: "resolve_display_zone default_tz db manager field inst = Inl e
           \<and> set_dtz_field default_tz db manager field inst (Some d) = Inl e"
    if "call = Inl e" for e
    using that assms
    by (simp add: resolve_display_zone_def set_dtz_field_def localize_def split: option.splits)
  from r s n e show ?thesis by blast
qed

text \<open>
  The theorem at three callables: one returning an unknown name, one returning
  \<^verbatim>\<open>None\<close>, one raising.
\<close>

theorem dynamic_zone_fallback_witness:
  "resolve_display_zone utc_zone sample_tzdb no_rows
      \<lparr>attname = ''start'', timezone = TzCallable (Inr (PyStr ''Mars/Olympus''))\<rparr> sample_instance
     = Inr (PyTz utc_zone)
   \<and> resolve_display_zone utc_zone sample_tzdb no_rows
      \<lparr>attname = ''start'', timezone = TzCallable (Inr PyNone)\<rparr> sample_instance
     = Inr (PyTz utc_zone)
   \<and> resolve_display_zone utc_zone sample_tzdb no_rows
      \<lparr>attname = ''start'', timezone = TzCallable (Inl ValueError)\<rparr> sample_instance
     = Inl ValueError"
proof -
  have n: "''Mars/Olympus'' \<notin> all_timezones_set sample_tzdb"
    by (simp add: all_timezones_set_def sample_tzdb_def)
  have f: "timezone \<lparr>attname = ''start'', timezone = TzCallable c\<rparr> = TzCallable c" for c
    by simp
  from dynamic_zone_fallback
    [OF f, of "Inr (PyStr ''Mars/Olympus'')" sample_tzdb utc_zone no_rows sample_instance] n
  have a: "resolve_display_zone utc_zone sample_tzdb no_rows
      \<lparr>attname = ''start'', timezone = TzCallable (Inr (PyStr ''Mars/Olympus''))\<rparr> sample_instance
     = Inr (PyTz utc_zone)" by simp
  from dynamic_zone_fallback [OF f, of "Inr PyNone" sample_tzdb utc_zone no_rows sample_instance]
  have b: "resolve_display_zone utc_zone sample_tzdb no_rows
      \<lparr>attname = ''start'', timezone = TzCallable (Inr PyNone)\<rparr> sample_instance
     = Inr (PyTz utc_zone)" by simp
  from dynamic_zone_fallback [OF f, of "Inl ValueError" sample_tzdb utc_zone no_rows sample_instance]
  have c: "resolve_display_zone utc_zone sample_tzdb no_rows
      \<lparr>attname = ''start'', timezone = TzCallable (Inl ValueError)\<rparr> sample_instance
     = Inl ValueError" by simp
  from a b c show ?thesis by simp
qed

text \<open>
  Claim C2 as stated fails: with a callable that raises \<^verbatim>\<open>RuntimeError\<close>, setting the
  attribute to the naive 2021-03-15T10:00:00 raises \<^verbatim>\<open>RuntimeError\<close>; no zone is
  resolved.
\<close>

theorem dynamic_callable_raise_escapes:
  "set_dtz_field utc_zone sample_tzdb no_rows
      \<lparr>attname = ''start'', timezone = TzCallable (Inl RuntimeError)\<rparr> sample_instance
      (Some \<lparr>wall = wall_clock 2021 3 15 10 0 0, tzinfo = None\<rparr>) = Inl RuntimeError
   \<and> resolve_display_zone utc_zone sample_tzdb no_rows
      \<lparr>attname = ''start'', timezone = TzCallable (Inl RuntimeError)\<rparr> sample_instance
     = Inl RuntimeError"
  by (simp add: set_dtz_field_def resolve_display_zone_def localize_def)

text \<open>
  Claim C3. For a field whose zone is the name of a relation, setting the attribute to any
  datetime raises \<^verbatim>\<open>NameError\<close>: the query is built from \<^verbatim>\<open>model_instance\<close>, a name
  that nothing binds, so no lookup by the instance's primary key takes place and no fallback
  to the default zone is reached.
\<close>

theorem relational_lookup_raises_NameError:
  "set_dtz_field default_tz db manager \<lparr>attname = name, timezone = TzStr rel\<rparr> inst (Some dt)
     = Inl NameError
   \<and> resolve_display_zone default_tz db manager \<lparr>attname = name, timezone = TzStr rel\<rparr> inst
     = Inl NameError"
  by (simp add: set_dtz_field_def resolve_display_zone_def set_dtz_field_scope_def localize_def
      split: option.splits)

section \<open>Saving and reading back\<close>




text \<open>
  Claim C6. With no \<^verbatim>\<open>TIME_ZONE\<close> setting the default zone is UTC, and the field
  argument \<^verbatim>\<open>"America/New_York"\<close> is resolved to that zone. The naive
  2021-03-15T10:00:00 is then handed to the base save as 2021-03-15T10:00:00+00:00, without
  a connection and through an adapter that accepts aware values alike, and reading that
  stored instant through the attribute gives 2021-03-15T06:00:00-04:00.
\<close>

theorem new_york_example:
  "module_default_tz sample_tzdb None = Inr utc_zone
   \<and> LocalizedDateTimeField_init sample_tzdb ''start'' (TzStr ''America/New_York'') =
       Inr \<lparr>attname = ''start'', timezone = TzZone new_york_zone\<rparr>
   \<and> get_db_prep_save utc_zone store_as_given
        (Some \<lparr>wall = wall_clock 2021 3 15 10 0 0, tzinfo = None\<rparr>) None =
       ([SaveCall (Some \<lparr>wall = wall_clock 2021 3 15 10 0 0,
                         tzinfo = Some
                           \<lparr>zone = ''UTC'', utcoffset = hours 0, dst = 0, tzname = ''UTC''\<rparr>\<rparr>)],
        Inr (Some \<lparr>wall = wall_clock 2021 3 15 10 0 0,
                   tzinfo = Some
                     \<lparr>zone = ''UTC'', utcoffset = hours 0, dst = 0, tzname = ''UTC''\<rparr>\<rparr>))
   \<and> get_db_prep_save utc_zone store_as_given
        (Some \<lparr>wall = wall_clock 2021 3 15 10 0 0, tzinfo = None\<rparr>) (Some aware_connection) =
       ([ProbeCall (Some \<lparr>wall = wall_clock 2021 3 15 10 0 0,
                          tzinfo = Some
                            \<lparr>zone = ''UTC'', utcoffset = hours 0, dst = 0, tzname = ''UTC''\<rparr>\<rparr>),
         SaveCall (Some \<lparr>wall = wall_clock 2021 3 15 10 0 0,
                         tzinfo = Some
                           \<lparr>zone = ''UTC'', utcoffset = hours 0, dst = 0, tzname = ''UTC''\<rparr>\<rparr>)],
        Inr (Some \<lparr>wall = wall_clock 2021 3 15 10 0 0,
                   tzinfo = Some
                     \<lparr>zone = ''UTC'', utcoffset = hours 0, dst = 0, tzname = ''UTC''\<rparr>\<rparr>))
   \<and> on_read utc_zone sample_tzdb no_rows
        \<lparr>attname = ''start'', timezone = TzZone new_york_zone\<rparr> sample_instance
        (Some \<lparr>wall = wall_clock 2021 3 15 10 0 0,
               tzinfo = Some
                 \<lparr>zone = ''UTC'', utcoffset = hours 0, dst = 0, tzname = ''UTC''\<rparr>\<rparr>) =
       Inr (Some \<lparr>wall = wall_clock 2021 3 15 6 0 0,
                  tzinfo = Some
                    \<lparr>zone = ''America/New_York'', utcoffset = hours (- 4), dst = hours 1, tzname = ''EDT''\<rparr>\<rparr>)"
  by (simp add: module_default_tz_def sample_tzdb_def pytz_timezone_def utc_zone_def
      LocalizedDateTimeField_init_def all_timezones_set_def
      get_db_prep_save_def to_default_tz_def astimezone_def localize_def
      probe_connection_def aware_connection_def
      store_as_given_def new_york_zone_def new_york_fromutc_def
      on_read_def set_dtz_field_def resolve_display_zone_def get_dtz_field_def dt_field_name_def
      zone_tzinfo_def tzinfo_instance_def EDT_def EST_def calendar_defs)

section \<open>TimeZoneField: coercion and the length check\<close>

text \<open>
  Claim C7. For a known identifier \<open>z\<close>, \<^verbatim>\<open>to_python\<close> gives the zone of that name, and
  applying \<^verbatim>\<open>to_python\<close> to that result gives the same value again.
\<close>

theorem to_python_idempotent:
  assumes "z \<in> all_timezones_set db"
  shows "TimeZoneField_to_python db (TimeZoneField_to_python db (PyStr z))
           = TimeZoneField_to_python db (PyStr z)
         \<and> (\<exists>tz. TimeZoneField_to_python db (PyStr z) = PyTz tz \<and> zone_name tz = z)"
proof -
  from assms obtain r where "map_of db z = Some r"
    by (cases "map_of db z") (auto simp: all_timezones_set_def map_of_eq_None_iff)
  then show ?thesis
    by (cases r)
      (simp add: TimeZoneField_to_python_def CharField_to_python_def coerce_timezone_value_def
        pytz_timezone_def)
qed

theorem to_python_idempotent_witness:
  "''Asia/Tokyo'' \<in> all_timezones_set sample_tzdb
   \<and> TimeZoneField_to_python sample_tzdb
        (TimeZoneField_to_python sample_tzdb (PyStr ''Asia/Tokyo''))
       = TimeZoneField_to_python sample_tzdb (PyStr ''Asia/Tokyo'')"
proof -
  have h: "''Asia/Tokyo'' \<in> all_timezones_set sample_tzdb"
    by (simp add: all_timezones_set_def sample_tzdb_def)
  from to_python_idempotent [OF h] h show ?thesis by simp
qed

text \<open>
  Claim C8. The length check fails with a configuration error exactly when there is a known
  identifier and \<open>max_length\<close> is smaller than the length of the longest one; it fails for the
  length 5 and the identifier America/New_York. \<^verbatim>\<open>TimeZoneField.__init__\<close> runs the check
  before anything else, so constructing the field fails in exactly the same cases, whatever
  the keyword arguments are.
\<close>

theorem validate_max_length_fails_iff:
  "(validate_timezone_max_length max_length zones = Inl ConfigurationError
      \<longleftrightarrow> zones \<noteq> [] \<and> max_length < int (Max (length ` set zones)))
   \<and> validate_timezone_max_length 5 [''America/New_York''] = Inl ConfigurationError
   \<and> ((\<exists>e. TimeZoneField_init max_length zones tz pretty kwargs = Inl e)
      \<longleftrightarrow> zones \<noteq> [] \<and> max_length < int (Max (length ` set zones)))
   \<and> (TimeZoneField_init max_length zones tz pretty kwargs = Inl ConfigurationError
      \<longleftrightarrow> zones \<noteq> [] \<and> max_length < int (Max (length ` set zones)))"
proof -
  have b: "validate_timezone_max_length 5 [''America/New_York''] = Inl ConfigurationError"
    by (simp add: validate_timezone_max_length_def)
  have v: "validate_timezone_max_length max_length zones = Inl ConfigurationError
           \<or> validate_timezone_max_length max_length zones = Inr ()"
    by (simp add: validate_timezone_max_length_def)
  then have c: "(\<exists>e. TimeZoneField_init max_length zones tz pretty kwargs = Inl e)
      \<longleftrightarrow> validate_timezone_max_length max_length zones = Inl ConfigurationError"
    by (auto simp: TimeZoneField_init_def)
  from v have d: "TimeZoneField_init max_length zones tz pretty kwargs = Inl ConfigurationError
      \<longleftrightarrow> validate_timezone_max_length max_length zones = Inl ConfigurationError"
    by (auto simp: TimeZoneField_init_def)
  from b c d validate_fails_longest [of max_length zones] show ?thesis by simp
qed

end
